theory Spec2Isabelle
  imports Main
begin

section \<open>The settings store: \<^verbatim>\<open>src/renderer/src/store/localstorage.ts\<close>\<close>

subsection \<open>JavaScript values and the browser's localStorage\<close>

text \<open>
  A JavaScript string is modelled as a \<^typ>\<open>string\<close>: a list of code units. The
  store only compares strings, concatenates them and cuts them at the comma, so the
  width of a code unit plays no role.

  \<^verbatim>\<open>localStorage\<close> is a dictionary from string keys to string values.
  \<^verbatim>\<open>getItem\<close> answers \<^verbatim>\<open>null\<close> for a missing key (\<^term>\<open>None\<close>);
  \<^verbatim>\<open>setItem\<close> overwrites. The quota of a real browser is not modelled: every
  \<^verbatim>\<open>setItem\<close> succeeds.
\<close>

type_synonym local_storage = "string \<rightharpoonup> string"

definition getItem :: "local_storage \<Rightarrow> string \<Rightarrow> string option" where
  "getItem ls k = ls k"

definition setItem :: "local_storage \<Rightarrow> string \<Rightarrow> string \<Rightarrow> local_storage" where
  "setItem ls k v = ls(k \<mapsto> v)"

text \<open>An argument of type \<^verbatim>\<open>string | undefined | null\<close>.\<close>

datatype js_string = JUndefined | JNull | JStr string

text \<open>
  \<^verbatim>\<open>undefined\<close>, \<^verbatim>\<open>null\<close> and the empty string are falsy, every other
  string is truthy. \<^verbatim>\<open>string | null\<close> is a \<^typ>\<open>string option\<close>, with
  \<^term>\<open>None\<close> for \<^verbatim>\<open>null\<close>. \<^verbatim>\<open>a || b\<close> with a string \<^verbatim>\<open>b\<close> is
  \<^verbatim>\<open>a\<close> if it is truthy, else \<^verbatim>\<open>b\<close>.
\<close>

fun js_or :: "js_string \<Rightarrow> string \<Rightarrow> string" where
  "js_or (JStr s) d = (if s \<noteq> [] then s else d)"
| "js_or _ d = d"

fun js_or_opt :: "string option \<Rightarrow> string \<Rightarrow> string" where
  "js_or_opt (Some s) d = (if s \<noteq> [] then s else d)"
| "js_or_opt None d = d"

text \<open>\<^verbatim>\<open>value + ''\<close> for a boolean.\<close>

fun bool_to_string :: "bool \<Rightarrow> string" where
  "bool_to_string True = ''true''"
| "bool_to_string False = ''false''"

text \<open>
  \<^verbatim>\<open>s.split(',')\<close>: the pieces of \<^verbatim>\<open>s\<close> between the separators, in order;
  the empty string gives one empty piece. \<^verbatim>\<open>arr.join(',')\<close> puts the
  separator between consecutive elements.
\<close>

fun str_split :: "char \<Rightarrow> string \<Rightarrow> string list" where
  "str_split sep [] = [[]]"
| "str_split sep (c # cs) =
     (if c = sep then [] # str_split sep cs
      else (case str_split sep cs of
              w # ws \<Rightarrow> (c # w) # ws
            | [] \<Rightarrow> [[c]]))"

fun str_join :: "char \<Rightarrow> string list \<Rightarrow> string" where
  "str_join sep [] = []"
| "str_join sep [x] = x"
| "str_join sep (x # y # ys) = x @ sep # str_join sep (y # ys)"

subsection \<open>A promise and its constructor\<close>

text \<open>
  \<^verbatim>\<open>new Promise(executor)\<close> runs the executor at once. The promise is settled by
  the executor's first call of \<^verbatim>\<open>resolve\<close> or \<^verbatim>\<open>reject\<close>; without such a
  call it is rejected if the executor throws, and stays pending otherwise. The value
  the executor returns is ignored.
\<close>

datatype ('e, 'a) promise = Pending | Fulfilled 'a | Rejected 'e

datatype ('e, 'a) settle = Resolve 'a | Reject 'e

datatype ('e, 'r) completion = Returns 'r | Throws 'e

fun new_Promise :: "('e, 'a) settle option \<times> ('e, 'r) completion \<Rightarrow> ('e, 'a) promise" where
  "new_Promise (Some (Resolve v), _) = Fulfilled v"
| "new_Promise (Some (Reject e), _) = Rejected e"
| "new_Promise (None, Throws e) = Rejected e"
| "new_Promise (None, Returns r) = Pending"

subsection \<open>LocalStorageService\<close>

definition LOCALSTORAGE_MENU_OPEN_KEYS :: string where
  "LOCALSTORAGE_MENU_OPEN_KEYS = ''menu_open_keys''"

definition LOCALSTORAGE_CURRENT_FILE_ID :: string where
  "LOCALSTORAGE_CURRENT_FILE_ID = ''current_file_id''"

definition LOCALSTORAGE_BOARD_CUSTOM_FONTS :: string where
  "LOCALSTORAGE_BOARD_CUSTOM_FONTS = ''custom_fonts''"

definition LOCALSTORAGE_LANG_CODE :: string where
  "LOCALSTORAGE_LANG_CODE = ''lang_code''"

definition LOCALSTORAGE_BOARD_CUSTOM_FONT_SWITCH :: string where
  "LOCALSTORAGE_BOARD_CUSTOM_FONT_SWITCH = ''board_custom_font_switch''"

text \<open>
  \<^verbatim>\<open>loadOpenKeys\<close>. The executor is \<^verbatim>\<open>() => { ...; return ... }\<close>: it takes
  neither \<^verbatim>\<open>resolve\<close> nor \<^verbatim>\<open>reject\<close>, so it settles nothing itself (the
  first component is \<^term>\<open>None\<close>); it returns the parsed list, or throws what
  \<^verbatim>\<open>JSON.parse\<close> throws. \<^verbatim>\<open>JSON.parse\<close> is the parameter \<open>parse\<close>.
\<close>

definition loadOpenKeys ::
  "(string \<Rightarrow> 'e + string list) \<Rightarrow> local_storage \<Rightarrow> ('e, string list) promise" where
  "loadOpenKeys parse ls =
     new_Promise (None,
       (let localStr = getItem ls LOCALSTORAGE_MENU_OPEN_KEYS in
        case localStr of
          Some s \<Rightarrow>
            if s \<noteq> [] then (case parse s of Inl e \<Rightarrow> Throws e | Inr v \<Rightarrow> Returns v)
            else Returns []
        | None \<Rightarrow> Returns []))"

text \<open>\<^verbatim>\<open>saveOpenKeys\<close>, with \<^verbatim>\<open>JSON.stringify\<close> as the parameter \<open>stringify\<close>.\<close>

definition saveOpenKeys ::
  "(string list \<Rightarrow> string) \<Rightarrow> string list \<Rightarrow> local_storage \<Rightarrow> local_storage" where
  "saveOpenKeys stringify openKeys ls =
     (let localStr = stringify openKeys in
      setItem ls LOCALSTORAGE_MENU_OPEN_KEYS localStr)"

definition saveCurrentFileId :: "js_string \<Rightarrow> local_storage \<Rightarrow> local_storage" where
  "saveCurrentFileId fileId ls = setItem ls LOCALSTORAGE_CURRENT_FILE_ID (js_or fileId [])"

definition loadCurrentFileId :: "local_storage \<Rightarrow> string option" where
  "loadCurrentFileId ls = getItem ls LOCALSTORAGE_CURRENT_FILE_ID"

definition loadBoardCustomFont :: "local_storage \<Rightarrow> string option" where
  "loadBoardCustomFont ls = getItem ls LOCALSTORAGE_BOARD_CUSTOM_FONTS"

text \<open>\<^verbatim>\<open>fontName && localStorage.setItem(...)\<close>: the write is guarded by the
  truthiness of the argument.\<close>

definition saveBoardCustomFont :: "string option \<Rightarrow> local_storage \<Rightarrow> local_storage" where
  "saveBoardCustomFont fontName ls =
     (case fontName of
        Some s \<Rightarrow> if s \<noteq> [] then setItem ls LOCALSTORAGE_BOARD_CUSTOM_FONTS s else ls
      | None \<Rightarrow> ls)"

text \<open>
  \<^verbatim>\<open>addBoardCustomFont\<close>. \<^verbatim>\<open>customFonts?.split(',')\<close> is \<^verbatim>\<open>undefined\<close>
  when nothing is stored (\<^term>\<open>None\<close>), and \<^verbatim>\<open>arr?.includes(...)\<close> is then
  falsy.
\<close>

definition addBoardCustomFont :: "string \<Rightarrow> local_storage \<Rightarrow> local_storage" where
  "addBoardCustomFont fontFamilyName ls =
     (let customFonts = getItem ls LOCALSTORAGE_BOARD_CUSTOM_FONTS;
          arr = map_option (str_split CHR '','') customFonts
      in if (case arr of None \<Rightarrow> False | Some a \<Rightarrow> fontFamilyName \<in> set a) then ls
         else
           (let newCustomFonts =
                  (case arr of
                     Some a \<Rightarrow> str_join CHR '','' (a @ [fontFamilyName])
                   | None \<Rightarrow> fontFamilyName)
            in setItem ls LOCALSTORAGE_BOARD_CUSTOM_FONTS newCustomFonts))"

definition saveLangCode :: "string \<Rightarrow> local_storage \<Rightarrow> local_storage" where
  "saveLangCode langCode ls = setItem ls LOCALSTORAGE_LANG_CODE langCode"

definition loadLangCode :: "local_storage \<Rightarrow> string option" where
  "loadLangCode ls = getItem ls LOCALSTORAGE_LANG_CODE"

definition loadBoardCustomFontSwitch :: "local_storage \<Rightarrow> string option" where
  "loadBoardCustomFontSwitch ls = getItem ls LOCALSTORAGE_BOARD_CUSTOM_FONT_SWITCH"

definition saveBoardCustomFontSwitch :: "bool \<Rightarrow> local_storage \<Rightarrow> local_storage" where
  "saveBoardCustomFontSwitch v ls =
     setItem ls LOCALSTORAGE_BOARD_CUSTOM_FONT_SWITCH (bool_to_string v)"

text \<open>The stored custom-font list, as \<^verbatim>\<open>addBoardCustomFont\<close> reads it: no element
  when nothing is stored, the comma-separated pieces of the stored string otherwise.\<close>

definition stored_fonts :: "local_storage \<Rightarrow> string list" where
  "stored_fonts ls =
     (case getItem ls LOCALSTORAGE_BOARD_CUSTOM_FONTS of
        None \<Rightarrow> []
      | Some c \<Rightarrow> str_split CHR '','' c)"

section \<open>The editor binding: the \<^verbatim>\<open>Handraw\<close> component\<close>

subsection \<open>The canvas store\<close>

text \<open>The failures of the store, as the specification names them.\<close>

datatype storage_error = StorageUnavailable | InvalidKey | SerializationFailure

text \<open>
  The store holds at most one content string per document identifier. It may be
  unavailable, and it may refuse identifiers (\<open>valid_key\<close> tells which ones it
  accepts).
\<close>

record canvas_store =
  available :: bool
  valid_key :: "string \<Rightarrow> bool"
  records :: "string \<rightharpoonup> string"

text \<open>Modelled from the spec: \<^verbatim>\<open>canvasIndexeddbStorage.getCanvas\<close>, whose module
  \<^verbatim>\<open>@renderer/store/canvasIndexeddb\<close> is not among the sources. The specification:
  ``\<^verbatim>\<open>get(documentId) -> content | empty\<close>: retrieves previously stored content for the
  identifier; returns an empty/default sentinel if none exists''; ``if the underlying
  storage is unavailable or the identifier is malformed, the operation fails with a
  Storage-Unavailable or Invalid-Key error''. The empty sentinel is \<^term>\<open>None\<close>.
\<close>

definition getCanvas :: "canvas_store \<Rightarrow> string \<Rightarrow> storage_error + string option" where
  "getCanvas st i =
     (if \<not> available st then Inl StorageUnavailable
      else if \<not> valid_key st i then Inl InvalidKey
      else Inr (records st i))"

text \<open>Modelled from the spec: \<^verbatim>\<open>canvasIndexeddbStorage.addOrUpdateCanvas\<close>, of the same
  missing module. The specification: ``\<^verbatim>\<open>put(documentId, content)\<close>: upserts content
  for the identifier; overwrites any prior value unconditionally'', with the same two
  failures.
\<close>

definition addOrUpdateCanvas ::
  "canvas_store \<Rightarrow> string \<Rightarrow> string \<Rightarrow> storage_error + canvas_store" where
  "addOrUpdateCanvas st i c =
     (if \<not> available st then Inl StorageUnavailable
      else if \<not> valid_key st i then Inl InvalidKey
      else Inr (st\<lparr>records := (records st)(i \<mapsto> c)\<rparr>))"

text \<open>A store that accepts the identifiers \<open>ok\<close> and holds nothing yet, and the store
  after a sequence of \<^verbatim>\<open>put\<close>s (a failed one changes nothing).\<close>

definition fresh_store :: "(string \<Rightarrow> bool) \<Rightarrow> canvas_store" where
  "fresh_store ok = \<lparr>available = True, valid_key = ok, records = Map.empty\<rparr>"

fun put_all :: "(string \<times> string) list \<Rightarrow> canvas_store \<Rightarrow> canvas_store" where
  "put_all [] st = st"
| "put_all ((i, c) # ps) st =
     put_all ps (case addOrUpdateCanvas st i c of Inr st' \<Rightarrow> st' | Inl e \<Rightarrow> st)"

subsection \<open>The component\<close>

text \<open>
  \<^verbatim>\<open>RevenoteFile\<close>: the component reads \<^verbatim>\<open>file.id\<close> and \<^verbatim>\<open>file.name\<close>
  (the fields are prefixed here, \<open>id\<close> being the identity function of HOL).
\<close>

record revenote_file =
  file_id :: string
  file_name :: string

text \<open>What \<^verbatim>\<open>console.log('--- onchange ---', data)\<close> prints.\<close>

datatype 'd log_entry = OnChangeLog 'd

text \<open>
  One mounted instance of \<^verbatim>\<open>Handraw\<close> together with what it acts on. Time is
  counted in milliseconds.
  \<^item> \<open>props_file\<close>: the current \<^verbatim>\<open>file\<close> prop;
  \<^item> \<open>dataSource\<close>, \<open>isModalOpen\<close>: the two \<^verbatim>\<open>useState\<close> cells
    (\<^verbatim>\<open>useState<string>()\<close> starts as \<^verbatim>\<open>undefined\<close>, here \<^term>\<open>None\<close>);
  \<^item> \<open>bound_file\<close>: the \<^verbatim>\<open>file\<close> in the closure of \<^verbatim>\<open>onChangeFn\<close>. The
    callback is made by \<^verbatim>\<open>useCallback(..., [])\<close>: with no dependencies the
    function of the first render is kept for the life of the instance, and with it the
    \<^verbatim>\<open>file\<close> of the first render;
  \<^item> \<open>timer\<close>: the slot of the debounced function, holding the time at which the
    pending call is due and its argument;
  \<^item> \<open>db\<close>: the canvas store; \<open>console\<close>: the lines logged;
  \<^item> \<open>writes\<close>: the calls of \<^verbatim>\<open>addOrUpdateCanvas\<close> made so far, as
    (identifier, content), in order;
  \<^item> \<open>rejected\<close>: the errors of the promises that were rejected and that nobody
    handles (neither \<^verbatim>\<open>getDataSource\<close> nor \<^verbatim>\<open>onChangeFn\<close> has a
    \<^verbatim>\<open>try\<close>, and their callers drop the promise).
\<close>

record 'd handraw =
  props_file :: revenote_file
  dataSource :: "string option"
  isModalOpen :: bool
  bound_file :: revenote_file
  timer :: "(nat \<times> 'd) option"
  db :: canvas_store
  console :: "'d log_entry list"
  writes :: "(string \<times> string) list"
  rejected :: "storage_error list"

definition DEFAULT_DATA_SOURCE :: string where
  "DEFAULT_DATA_SOURCE = ''{}''"

text \<open>
  \<^verbatim>\<open>getDataSource\<close>: \<^verbatim>\<open>await getCanvas(id)\<close>, then
  \<^verbatim>\<open>setDataSource(data || DEFAULT_DATA_SOURCE)\<close>. A failing read throws at the
  \<^verbatim>\<open>await\<close>: the rest of the body is skipped and the promise of the call is
  rejected. The read is taken to complete before the next event.
\<close>

definition getDataSource :: "string \<Rightarrow> 'd handraw \<Rightarrow> 'd handraw" where
  "getDataSource i w =
     (case getCanvas (db w) i of
        Inl e \<Rightarrow> w\<lparr>rejected := rejected w @ [e]\<rparr>
      | Inr data \<Rightarrow> w\<lparr>dataSource := Some (js_or_opt data DEFAULT_DATA_SOURCE)\<rparr>)"

text \<open>
  \<^verbatim>\<open>onChangeFn\<close>: log, serialise, write under \<^verbatim>\<open>file.id\<close> of the closure.
  \<^verbatim>\<open>JSON.stringify\<close> is the parameter \<open>stringify\<close>; it may throw.
\<close>

definition onChangeFn ::
  "('d \<Rightarrow> storage_error + string) \<Rightarrow> 'd \<Rightarrow> 'd handraw \<Rightarrow> 'd handraw" where
  "onChangeFn stringify data w =
     (let w1 = w\<lparr>console := console w @ [OnChangeLog data]\<rparr> in
      case stringify data of
        Inl e \<Rightarrow> w1\<lparr>rejected := rejected w1 @ [e]\<rparr>
      | Inr str \<Rightarrow>
          (let w2 = w1\<lparr>writes := writes w1 @ [(file_id (bound_file w1), str)]\<rparr> in
           case addOrUpdateCanvas (db w2) (file_id (bound_file w2)) str of
             Inl e \<Rightarrow> w2\<lparr>rejected := rejected w2 @ [e]\<rparr>
           | Inr st' \<Rightarrow> w2\<lparr>db := st'\<rparr>))"

text \<open>\<^verbatim>\<open>{ wait: 200 }\<close>\<close>

definition wait :: nat where
  "wait = 200"

text \<open>Modelled from the spec: the function \<^verbatim>\<open>run\<close> that \<^verbatim>\<open>useDebounceFn\<close> (package
  \<^verbatim>\<open>ahooks\<close>, not among the sources) returns. The specification: ``a single
  pending-timer slot [...], reset on each new edit, firing a flush callback on expiry'';
  ``if a change arrives within a fixed quiescence window [...] of the previous one, the
  earlier pending write is superseded (not executed) and the window restarts''. A call
  at time \<open>now\<close> replaces whatever the slot holds.
\<close>

definition onChangeDebounceFn :: "nat \<Rightarrow> 'd \<Rightarrow> 'd handraw \<Rightarrow> 'd handraw" where
  "onChangeDebounceFn now data w = w\<lparr>timer := Some (now + wait, data)\<rparr>"

text \<open>Modelled from the spec: the expiry of that timer. When the clock has reached the
  time the pending call is due, the slot is cleared and \<^verbatim>\<open>onChangeFn\<close> runs with
  the pending argument.
\<close>

definition elapse ::
  "('d \<Rightarrow> storage_error + string) \<Rightarrow> nat \<Rightarrow> 'd handraw \<Rightarrow> 'd handraw" where
  "elapse stringify now w =
     (case timer w of
        None \<Rightarrow> w
      | Some (due, data) \<Rightarrow>
          if due \<le> now then onChangeFn stringify data (w\<lparr>timer := None\<rparr>) else w)"

text \<open>
  Mounting the component with a file on a store: the first render makes the state
  cells and the callbacks, then the effect runs \<^verbatim>\<open>getDataSource(file.id)\<close>.
\<close>

definition mount :: "revenote_file \<Rightarrow> canvas_store \<Rightarrow> 'd handraw" where
  "mount f st =
     getDataSource (file_id f)
       \<lparr>props_file = f, dataSource = None, isModalOpen = False, bound_file = f, timer = None,
        db = st, console = [], writes = [], rejected = []\<rparr>"

text \<open>
  A render of the mounted instance with a new \<^verbatim>\<open>file\<close> prop. The effect has the
  dependency list \<^verbatim>\<open>[file.id]\<close>: it runs again when the identifier has changed.
  Nothing in the component touches the debounced function here.
\<close>

definition rerender :: "revenote_file \<Rightarrow> 'd handraw \<Rightarrow> 'd handraw" where
  "rerender f w =
     (let w1 = w\<lparr>props_file := f\<rparr> in
      if file_id f \<noteq> file_id (props_file w) then getDataSource (file_id f) w1 else w1)"

text \<open>
  What the component returns: \<^verbatim>\<open>null\<close> while \<^verbatim>\<open>dataSource\<close> is falsy, else
  the editor with its props and the modal.
\<close>

record view =
  editor_dataSource :: string
  editor_canvasName :: string
  modal_open :: bool

definition render :: "'d handraw \<Rightarrow> view option" where
  "render w =
     (case dataSource w of
        Some ds \<Rightarrow>
          if ds \<noteq> []
          then Some \<lparr>editor_dataSource = ds,
                     editor_canvasName = file_name (props_file w),
                     modal_open = isModalOpen w\<rparr>
          else None
      | None \<Rightarrow> None)"

subsection \<open>Runs of the component\<close>

text \<open>
  The events of a mounted instance: the editor reports a change (it calls its
  \<^verbatim>\<open>onChange\<close> prop, which is \<^verbatim>\<open>onChangeDebounceFn\<close>), or the host renders the
  component with another file. An event at time \<open>t\<close> is handled after the timer
  has been given the chance to fire at \<open>t\<close>.
\<close>

datatype 'd event = Change 'd | Switch revenote_file

fun handle :: "nat \<Rightarrow> 'd event \<Rightarrow> 'd handraw \<Rightarrow> 'd handraw" where
  "handle t (Change data) w = onChangeDebounceFn t data w"
| "handle t (Switch f) w = rerender f w"

fun run ::
  "('d \<Rightarrow> storage_error + string) \<Rightarrow> (nat \<times> 'd event) list \<Rightarrow> 'd handraw \<Rightarrow> 'd handraw" where
  "run stringify [] w = w"
| "run stringify ((t, ev) # es) w = run stringify es (handle t ev (elapse stringify t w))"

text \<open>Edits given as (time, content), as events.\<close>

definition changes :: "(nat \<times> 'd) list \<Rightarrow> (nat \<times> 'd event) list" where
  "changes edits = map (\<lambda>(t, d). (t, Change d)) edits"

text \<open>Times in order of which each is strictly less than the quiescence window after
  the one before.\<close>

fun within_window :: "nat list \<Rightarrow> bool" where
  "within_window (t1 # t2 # ts) = (t1 \<le> t2 \<and> t2 < t1 + wait \<and> within_window (t2 # ts))"
| "within_window _ = True"

text \<open>No pending call is due at time \<open>t\<close> or before.\<close>

definition not_due :: "nat \<Rightarrow> 'd handraw \<Rightarrow> bool" where
  "not_due t w = (case timer w of None \<Rightarrow> True | Some (due, data) \<Rightarrow> t < due)"

section \<open>Properties of the settings store\<close>

lemmas storage_keys =
  LOCALSTORAGE_MENU_OPEN_KEYS_def LOCALSTORAGE_CURRENT_FILE_ID_def
  LOCALSTORAGE_BOARD_CUSTOM_FONTS_def LOCALSTORAGE_LANG_CODE_def
  LOCALSTORAGE_BOARD_CUSTOM_FONT_SWITCH_def

subsection \<open>Splitting and joining at the comma\<close>

lemma str_split_not_Nil: "str_split sep s \<noteq> []"
  by (induction s) (auto split: list.splits)

lemma str_join_str_split: "str_join sep (str_split sep s) = s"
proof (induction s)
  case Nil
  then show ?case by simp
next
  case (Cons c cs)
  obtain w ws where ws: "str_split sep cs = w # ws"
    using str_split_not_Nil [of sep cs] by (cases "str_split sep cs") auto
  with Cons show ?case by (cases ws) auto
qed

lemma str_split_no_sep: "sep \<notin> set t \<Longrightarrow> str_split sep t = [t]"
  by (induction t) auto

lemma str_split_append:
  "sep \<notin> set t \<Longrightarrow> str_split sep (s @ sep # t) = str_split sep s @ [t]"
proof (induction s)
  case Nil
  then show ?case by (simp add: str_split_no_sep)
next
  case (Cons c cs)
  obtain w ws where ws: "str_split sep cs = w # ws"
    using str_split_not_Nil [of sep cs] by (cases "str_split sep cs") auto
  with Cons show ?case by auto
qed

lemma str_join_snoc: "xs \<noteq> [] \<Longrightarrow> str_join sep (xs @ [t]) = str_join sep xs @ sep # t"
  by (induction sep xs rule: str_join.induct) auto

subsection \<open>The two branches of \<^verbatim>\<open>addBoardCustomFont\<close>\<close>

lemma addBoardCustomFont_present:
  "s \<in> set (stored_fonts ls) \<Longrightarrow> addBoardCustomFont s ls = ls"
  by (auto simp: addBoardCustomFont_def stored_fonts_def Let_def split: option.splits)

lemma addBoardCustomFont_absent:
  "s \<notin> set (stored_fonts ls) \<Longrightarrow>
   addBoardCustomFont s ls =
     ls(LOCALSTORAGE_BOARD_CUSTOM_FONTS \<mapsto>
        (case getItem ls LOCALSTORAGE_BOARD_CUSTOM_FONTS of
           None \<Rightarrow> s
         | Some c \<Rightarrow> c @ CHR '','' # s))"
  by (auto simp: addBoardCustomFont_def stored_fonts_def Let_def setItem_def
      str_join_snoc str_split_not_Nil str_join_str_split split: option.splits)

lemma stored_fonts_added:
  "CHR '','' \<notin> set s \<Longrightarrow> s \<notin> set (stored_fonts ls) \<Longrightarrow>
   stored_fonts (addBoardCustomFont s ls) = stored_fonts ls @ [s]"
  by (auto simp: addBoardCustomFont_absent stored_fonts_def getItem_def
      str_split_append str_split_no_sep split: option.splits)

subsection \<open>The accessors\<close>

text \<open>
  C3 (\<^verbatim>\<open>loadOpenKeys\<close> resolves with the stored list, or with the empty list when
  nothing is stored). The code does not: with nothing stored the promise it returns
  stays pending, and whatever is stored the promise is never fulfilled, since the
  executor returns the list instead of passing it to \<^verbatim>\<open>resolve\<close>.
\<close>

theorem loadOpenKeys_never_fulfilled:
  "loadOpenKeys parse Map.empty = Pending \<and> loadOpenKeys parse ls \<noteq> Fulfilled v"
  by (simp add: loadOpenKeys_def getItem_def split: option.splits sum.splits)

text \<open>
  C4, amended. For every font name \<open>s\<close> without a comma and every stored state:
  \<^verbatim>\<open>addBoardCustomFont(s)\<close> changes nothing when \<open>s\<close> is an element of the stored
  comma-joined list; otherwise it stores the old value followed by a comma and \<open>s\<close>
  (just \<open>s\<close> when nothing was stored), which appends \<open>s\<close> to the list. After the
  call the list contains \<open>s\<close>, and a second call with \<open>s\<close> leaves the store as
  it is.
\<close>

theorem addBoardCustomFont_union:
  assumes "CHR '','' \<notin> set s"
  shows "(s \<in> set (stored_fonts ls) \<longrightarrow> addBoardCustomFont s ls = ls)
       \<and> (s \<notin> set (stored_fonts ls) \<longrightarrow>
            loadBoardCustomFont (addBoardCustomFont s ls) =
              Some (case loadBoardCustomFont ls of None \<Rightarrow> s | Some c \<Rightarrow> c @ '','' @ s)
          \<and> stored_fonts (addBoardCustomFont s ls) = stored_fonts ls @ [s])
       \<and> s \<in> set (stored_fonts (addBoardCustomFont s ls))
       \<and> addBoardCustomFont s (addBoardCustomFont s ls) = addBoardCustomFont s ls"
proof -
  have in_after: "s \<in> set (stored_fonts (addBoardCustomFont s ls))"
  proof (cases "s \<in> set (stored_fonts ls)")
    case True
    then show ?thesis by (simp add: addBoardCustomFont_present)
  next
    case False
    with assms show ?thesis by (simp add: stored_fonts_added)
  qed
  have load: "s \<notin> set (stored_fonts ls) \<Longrightarrow>
      loadBoardCustomFont (addBoardCustomFont s ls) =
        Some (case loadBoardCustomFont ls of None \<Rightarrow> s | Some c \<Rightarrow> c @ '','' @ s)"
    by (simp add: addBoardCustomFont_absent loadBoardCustomFont_def getItem_def
        split: option.splits)
  from in_after load assms show ?thesis
    by (simp add: addBoardCustomFont_present stored_fonts_added)
qed

text \<open>The amended C4 at work: \<^verbatim>\<open>Arial\<close> added to a store holding \<^verbatim>\<open>Times\<close>.\<close>

theorem addBoardCustomFont_union_witness:
  "CHR '','' \<notin> set ''Arial''
   \<and> loadBoardCustomFont
        (addBoardCustomFont ''Arial'' (Map.empty(''custom_fonts'' \<mapsto> ''Times''))) =
       Some ''Times,Arial''
   \<and> stored_fonts (addBoardCustomFont ''Arial'' (Map.empty(''custom_fonts'' \<mapsto> ''Times''))) =
       [''Times'', ''Arial'']
   \<and> addBoardCustomFont ''Arial''
        (addBoardCustomFont ''Arial'' (Map.empty(''custom_fonts'' \<mapsto> ''Times''))) =
       addBoardCustomFont ''Arial'' (Map.empty(''custom_fonts'' \<mapsto> ''Times''))"
  using addBoardCustomFont_union [of "''Arial''" "Map.empty(''custom_fonts'' \<mapsto> ''Times'')"]
  by (simp add: stored_fonts_def loadBoardCustomFont_def getItem_def storage_keys)

text \<open>
  C4 as first stated, for every font name, fails at a name with a comma. On an empty
  store \<^verbatim>\<open>addBoardCustomFont("a,b")\<close> stores \<^verbatim>\<open>a,b\<close>, whose list is
  \<^verbatim>\<open>["a", "b"]\<close> and does not contain the name; a second call appends again.
\<close>

theorem addBoardCustomFont_comma_counterexample:
  "loadBoardCustomFont (addBoardCustomFont ''a,b'' Map.empty) = Some ''a,b''
   \<and> ''a,b'' \<notin> set (stored_fonts (addBoardCustomFont ''a,b'' Map.empty))
   \<and> loadBoardCustomFont (addBoardCustomFont ''a,b'' (addBoardCustomFont ''a,b'' Map.empty)) =
       Some ''a,b,a,b''"
  by (simp add: addBoardCustomFont_def stored_fonts_def loadBoardCustomFont_def getItem_def
      setItem_def storage_keys Let_def)

text \<open>
  C5, amended. From every stored state in which \<^verbatim>\<open>Arial\<close> occurs at most once
  (an empty store among them), two calls of \<^verbatim>\<open>addBoardCustomFont("Arial")\<close> in
  succession leave a stored list in which \<^verbatim>\<open>Arial\<close> occurs exactly once.
\<close>

theorem addBoardCustomFont_twice_once:
  assumes "count_list (stored_fonts ls) ''Arial'' \<le> 1"
  shows "count_list
           (stored_fonts (addBoardCustomFont ''Arial'' (addBoardCustomFont ''Arial'' ls)))
           ''Arial'' = 1"
proof (cases "''Arial'' \<in> set (stored_fonts ls)")
  case True
  then have "count_list (stored_fonts ls) ''Arial'' \<noteq> 0"
    by (simp only: count_list_0_iff not_not)
  with assms have "count_list (stored_fonts ls) ''Arial'' = 1"
    by arith
  with True show ?thesis by (simp add: addBoardCustomFont_present)
next
  case False
  then have a: "stored_fonts (addBoardCustomFont ''Arial'' ls) = stored_fonts ls @ [''Arial'']"
    by (simp add: stored_fonts_added)
  then have "addBoardCustomFont ''Arial'' (addBoardCustomFont ''Arial'' ls) =
      addBoardCustomFont ''Arial'' ls"
    by (simp add: addBoardCustomFont_present)
  with a False show ?thesis by (simp add: count_list_0_iff)
qed

text \<open>The amended C5 on the empty store.\<close>

theorem addBoardCustomFont_twice_once_witness:
  "count_list (stored_fonts Map.empty) ''Arial'' \<le> 1
   \<and> count_list
       (stored_fonts (addBoardCustomFont ''Arial'' (addBoardCustomFont ''Arial'' Map.empty)))
       ''Arial'' = 1"
  using addBoardCustomFont_twice_once [of Map.empty]
  by (simp add: stored_fonts_def getItem_def)

text \<open>
  C5 as first stated, from any stored state, fails when the store already holds the
  name twice (\<^verbatim>\<open>saveBoardCustomFont("Arial,Arial")\<close> stores such a value): both
  calls find the name and change nothing.
\<close>

theorem addBoardCustomFont_twice_counterexample:
  "count_list
     (stored_fonts
        (addBoardCustomFont ''Arial''
           (addBoardCustomFont ''Arial'' (Map.empty(''custom_fonts'' \<mapsto> ''Arial,Arial'')))))
     ''Arial'' = 2"
  by (simp add: addBoardCustomFont_def stored_fonts_def getItem_def
      setItem_def storage_keys Let_def)

text \<open>
  C7, amended. \<^verbatim>\<open>saveOpenKeys\<close>, \<^verbatim>\<open>saveCurrentFileId\<close>, \<^verbatim>\<open>saveLangCode\<close>
  and \<^verbatim>\<open>saveBoardCustomFontSwitch\<close> overwrite the value under their key
  unconditionally. \<^verbatim>\<open>saveBoardCustomFont(v)\<close> stores \<open>v\<close> for every non-empty
  string \<open>v\<close>, and leaves the store as it is when \<open>v\<close> is \<^verbatim>\<open>null\<close> or the
  empty string.
\<close>

theorem settings_writes:
  "saveOpenKeys stringify openKeys ls = ls(LOCALSTORAGE_MENU_OPEN_KEYS \<mapsto> stringify openKeys)
   \<and> saveCurrentFileId fileId ls = ls(LOCALSTORAGE_CURRENT_FILE_ID \<mapsto> js_or fileId [])
   \<and> saveLangCode langCode ls = ls(LOCALSTORAGE_LANG_CODE \<mapsto> langCode)
   \<and> saveBoardCustomFontSwitch b ls =
       ls(LOCALSTORAGE_BOARD_CUSTOM_FONT_SWITCH \<mapsto> bool_to_string b)
   \<and> saveBoardCustomFont (Some (c # cs)) ls = ls(LOCALSTORAGE_BOARD_CUSTOM_FONTS \<mapsto> c # cs)
   \<and> saveBoardCustomFont None ls = ls
   \<and> saveBoardCustomFont (Some []) ls = ls"
  by (simp add: saveOpenKeys_def saveCurrentFileId_def saveLangCode_def
      saveBoardCustomFontSwitch_def saveBoardCustomFont_def setItem_def)

text \<open>
  C7 as first stated fails for \<^verbatim>\<open>null\<close> and for the empty string: on a store
  holding \<^verbatim>\<open>Arial\<close>, \<^verbatim>\<open>saveBoardCustomFont\<close> with either argument leaves
  \<^verbatim>\<open>Arial\<close> in place.
\<close>

theorem saveBoardCustomFont_guard_counterexample:
  "loadBoardCustomFont (saveBoardCustomFont None (Map.empty(''custom_fonts'' \<mapsto> ''Arial''))) =
     Some ''Arial''
   \<and> loadBoardCustomFont
        (saveBoardCustomFont (Some []) (Map.empty(''custom_fonts'' \<mapsto> ''Arial''))) =
     Some ''Arial''
   \<and> loadBoardCustomFont
        (saveBoardCustomFont (Some []) (Map.empty(''custom_fonts'' \<mapsto> ''Arial''))) \<noteq>
     Some []"
  by (simp add: saveBoardCustomFont_def loadBoardCustomFont_def getItem_def storage_keys)

text \<open>
  C10. Saving \<^verbatim>\<open>null\<close> or \<^verbatim>\<open>undefined\<close> as the current file id stores the
  empty string under the current-file-id key, and a following
  \<^verbatim>\<open>loadCurrentFileId\<close> returns the empty string, not \<^verbatim>\<open>null\<close>.
\<close>

theorem saveCurrentFileId_nullish:
  "saveCurrentFileId JNull ls = ls(LOCALSTORAGE_CURRENT_FILE_ID \<mapsto> [])
   \<and> saveCurrentFileId JUndefined ls = ls(LOCALSTORAGE_CURRENT_FILE_ID \<mapsto> [])
   \<and> loadCurrentFileId (saveCurrentFileId JNull ls) = Some []
   \<and> loadCurrentFileId (saveCurrentFileId JUndefined ls) = Some []"
  by (simp add: saveCurrentFileId_def loadCurrentFileId_def getItem_def setItem_def)

section \<open>Properties of the editor binding\<close>

subsection \<open>What the steps leave alone\<close>

lemma elapse_not_due: "not_due t w \<Longrightarrow> elapse stringify t w = w"
  by (auto simp: not_due_def elapse_def split: option.splits)

lemma onChangeFn_writes:
  "stringify data = Inr s \<Longrightarrow>
   writes (onChangeFn stringify data w) = writes w @ [(file_id (bound_file w), s)]"
  by (simp add: onChangeFn_def Let_def split: sum.splits)

lemma getDataSource_keeps:
  "timer (getDataSource i w) = timer w"
  "writes (getDataSource i w) = writes w"
  "bound_file (getDataSource i w) = bound_file w"
  "db (getDataSource i w) = db w"
  "console (getDataSource i w) = console w"
  "props_file (getDataSource i w) = props_file w"
  "isModalOpen (getDataSource i w) = isModalOpen w"
  by (simp_all add: getDataSource_def split: sum.splits)

lemma put_all_keeps:
  "available (put_all ps st) = available st"
  "valid_key (put_all ps st) = valid_key st"
  by (induction ps st rule: put_all.induct) (simp_all add: addOrUpdateCanvas_def)

lemma put_all_other:
  "d \<notin> fst ` set ps \<Longrightarrow> records (put_all ps st) d = records st d"
  by (induction ps st rule: put_all.induct) (auto simp: addOrUpdateCanvas_def)

text \<open>
  A burst of edits, each within the window of the one before, only moves the timer:
  nothing fires during the burst, and the slot ends up holding the last edit.
\<close>

lemma run_changes:
  "edits \<noteq> [] \<Longrightarrow> within_window (map fst edits) \<Longrightarrow> not_due (fst (hd edits)) w \<Longrightarrow>
   run stringify (changes edits) w =
     w\<lparr>timer := Some (fst (last edits) + wait, snd (last edits))\<rparr>"
proof (induction edits arbitrary: w)
  case Nil
  then show ?case by simp
next
  case (Cons e es)
  note IH = Cons.IH and window = Cons.prems(2) and quiet = Cons.prems(3)
  obtain t d where e: "e = (t, d)" by (cases e)
  let ?w1 = "onChangeDebounceFn t d w"
  have step: "run stringify (changes (e # es)) w = run stringify (changes es) ?w1"
    using quiet by (simp add: e changes_def elapse_not_due)
  show ?case
  proof (cases "es = []")
    case True
    then show ?thesis using step by (simp add: e changes_def onChangeDebounceFn_def)
  next
    case False
    then obtain e' es' where es: "es = e' # es'" by (cases es) auto
    have "within_window (map fst es)"
      using window by (simp add: e es)
    moreover have "not_due (fst (hd es)) ?w1"
      using window by (simp add: e es not_due_def onChangeDebounceFn_def)
    ultimately have "run stringify (changes es) ?w1 =
        ?w1\<lparr>timer := Some (fst (last es) + wait, snd (last es))\<rparr>"
      using False by (simp add: IH)
    then show ?thesis using step False by (simp add: onChangeDebounceFn_def)
  qed
qed

lemmas binding_defs =
  mount_def fresh_store_def getDataSource_def getCanvas_def elapse_def onChangeDebounceFn_def
  wait_def rerender_def onChangeFn_def addOrUpdateCanvas_def render_def changes_def
  DEFAULT_DATA_SOURCE_def Let_def

subsection \<open>Switching the document\<close>

text \<open>
  C1, amended. For distinct document identifiers \<open>d1\<close> and \<open>d2\<close>, in a component
  mounted with \<open>d1\<close>: if an edit to \<open>d1\<close> has a debounced write pending and the
  active document is switched to \<open>d2\<close>, the switch only starts the hydration for
  \<open>d2\<close>. The pending write is not discarded: it stays scheduled, nothing is written
  at the switch, and once its window has elapsed the pending content is written under
  \<open>d1\<close>.
\<close>

theorem switch_keeps_pending_write:
  assumes "timer w = Some (due, data)"
    and "t < due" and "due \<le> T"
    and "file_id (bound_file w) = d1" and "file_id (props_file w) = d1"
    and "file_id f2 \<noteq> d1"
    and "stringify data = Inr s"
  shows "run stringify [(t, Switch f2)] w = getDataSource (file_id f2) (w\<lparr>props_file := f2\<rparr>)
       \<and> timer (run stringify [(t, Switch f2)] w) = Some (due, data)
       \<and> writes (run stringify [(t, Switch f2)] w) = writes w
       \<and> writes (elapse stringify T (run stringify [(t, Switch f2)] w)) = writes w @ [(d1, s)]"
proof -
  have "not_due t w"
    using assms(1,2) by (simp add: not_due_def)
  then have r: "run stringify [(t, Switch f2)] w =
      getDataSource (file_id f2) (w\<lparr>props_file := f2\<rparr>)"
    using assms(5,6) by (simp add: elapse_not_due rerender_def)
  have "writes (elapse stringify T (getDataSource (file_id f2) (w\<lparr>props_file := f2\<rparr>))) =
      writes w @ [(d1, s)]"
    using assms(1,3,4,7)
    by (simp add: elapse_def getDataSource_keeps onChangeFn_writes)
  with r assms(1) show ?thesis
    by (simp add: getDataSource_keeps)
qed

text \<open>
  The amended C1 on a run: the component is mounted with \<^verbatim>\<open>d1\<close> on an empty
  store, an edit arrives at time 0, the document is switched to \<^verbatim>\<open>d2\<close> at time
  100, and the clock reaches 200.
\<close>

theorem switch_keeps_pending_write_witness:
  "timer (run Inr [(0, Change ''x'')]
            (mount \<lparr>file_id = ''d1'', file_name = ''one''\<rparr> (fresh_store (\<lambda>k. True)))) =
     Some (200, ''x'')
   \<and> (100::nat) < 200 \<and> (200::nat) \<le> 200
   \<and> ''d2'' \<noteq> ''d1''
   \<and> writes (elapse Inr 200
        (run Inr [(100, Switch \<lparr>file_id = ''d2'', file_name = ''two''\<rparr>)]
           (run Inr [(0, Change ''x'')]
              (mount \<lparr>file_id = ''d1'', file_name = ''one''\<rparr> (fresh_store (\<lambda>k. True)))))) =
     [(''d1'', ''x'')]"
  using switch_keeps_pending_write
    [of "run Inr [(0, Change ''x'')]
           (mount \<lparr>file_id = ''d1'', file_name = ''one''\<rparr> (fresh_store (\<lambda>k. True)))"
        200 "''x''" 100 200 "''d1''" "\<lparr>file_id = ''d2'', file_name = ''two''\<rparr>" Inr "''x''"]
  by (simp add: binding_defs)

text \<open>
  C1 as first stated fails on the same run. At the switch the write of \<^verbatim>\<open>x\<close> for
  \<^verbatim>\<open>d1\<close> is pending and nothing has been written; when the clock reaches 200,
  after the switch, \<^verbatim>\<open>x\<close> is written to the store under \<^verbatim>\<open>d1\<close>.
\<close>

theorem switch_flushes_counterexample:
  "timer (run Inr [(0, Change ''x'')]
            (mount \<lparr>file_id = ''d1'', file_name = ''one''\<rparr> (fresh_store (\<lambda>k. True)))) =
     Some (200, ''x'')
   \<and> writes (run Inr [(0, Change ''x''), (100, Switch \<lparr>file_id = ''d2'', file_name = ''two''\<rparr>)]
            (mount \<lparr>file_id = ''d1'', file_name = ''one''\<rparr> (fresh_store (\<lambda>k. True)))) = []
   \<and> writes (elapse Inr 200
        (run Inr [(0, Change ''x''), (100, Switch \<lparr>file_id = ''d2'', file_name = ''two''\<rparr>)]
           (mount \<lparr>file_id = ''d1'', file_name = ''one''\<rparr> (fresh_store (\<lambda>k. True))))) =
     [(''d1'', ''x'')]
   \<and> records (db (elapse Inr 200
        (run Inr [(0, Change ''x''), (100, Switch \<lparr>file_id = ''d2'', file_name = ''two''\<rparr>)]
           (mount \<lparr>file_id = ''d1'', file_name = ''one''\<rparr> (fresh_store (\<lambda>k. True)))))) ''d1'' =
     Some ''x''"
  by (simp add: binding_defs)

subsection \<open>Debounced writes\<close>

text \<open>
  C2. Edits \<open>e1..en\<close> on one document, each strictly less than the window of 200ms
  after the one before, starting with no write pending: until the window has elapsed
  after \<open>en\<close> nothing is written; once it has, exactly one write has been made, with
  the serialised content of \<open>en\<close>, and the whole effect is that of one call of
  \<^verbatim>\<open>onChangeFn\<close> with \<open>en\<close>. The earlier edits are superseded, never executed.
\<close>

theorem debounce_single_write:
  assumes "edits \<noteq> []"
    and "within_window (map fst edits)"
    and "timer w = None"
    and "stringify (snd (last edits)) = Inr s"
  shows "writes (elapse stringify T (run stringify (changes edits) w)) =
           (if T < fst (last edits) + wait then writes w
            else writes w @ [(file_id (bound_file w), s)])
       \<and> (fst (last edits) + wait \<le> T \<longrightarrow>
            elapse stringify T (run stringify (changes edits) w) =
              onChangeFn stringify (snd (last edits)) w)"
proof -
  have "not_due (fst (hd edits)) w"
    using assms(3) by (simp add: not_due_def)
  with assms(1,2) have r: "run stringify (changes edits) w =
      w\<lparr>timer := Some (fst (last edits) + wait, snd (last edits))\<rparr>"
    by (rule run_changes)
  have w: "w\<lparr>timer := None\<rparr> = w"
    using assms(3) by simp
  show ?thesis
    using assms(4) by (simp add: r elapse_def w onChangeFn_writes)
qed

text \<open>
  C2 on three edits at times 0, 150 and 340: nothing is written up to time 539, and at
  time 540 the one write is that of the third edit.
\<close>

theorem debounce_single_write_witness:
  "[(0, ''a''), (150, ''b''), (340, ''c'')] \<noteq> []
   \<and> within_window (map fst [(0, ''a''), (150, ''b''), (340, ''c'')])
   \<and> timer (mount \<lparr>file_id = ''d1'', file_name = ''one''\<rparr> (fresh_store (\<lambda>k. True))
              :: string handraw) = None
   \<and> writes (elapse Inr 539
        (run Inr (changes [(0, ''a''), (150, ''b''), (340, ''c'')])
           (mount \<lparr>file_id = ''d1'', file_name = ''one''\<rparr> (fresh_store (\<lambda>k. True))))) = []
   \<and> writes (elapse Inr 540
        (run Inr (changes [(0, ''a''), (150, ''b''), (340, ''c'')])
           (mount \<lparr>file_id = ''d1'', file_name = ''one''\<rparr> (fresh_store (\<lambda>k. True))))) =
       [(''d1'', ''c'')]
   \<and> records (db (elapse Inr 540
        (run Inr (changes [(0, ''a''), (150, ''b''), (340, ''c'')])
           (mount \<lparr>file_id = ''d1'', file_name = ''one''\<rparr> (fresh_store (\<lambda>k. True)))))) ''d1'' =
       Some ''c''"
  using debounce_single_write
    [of "[(0, ''a''), (150, ''b''), (340, ''c'')]"
        "mount \<lparr>file_id = ''d1'', file_name = ''one''\<rparr> (fresh_store (\<lambda>k. True))"
        Inr "''c''" 539]
    debounce_single_write
    [of "[(0, ''a''), (150, ''b''), (340, ''c'')]"
        "mount \<lparr>file_id = ''d1'', file_name = ''one''\<rparr> (fresh_store (\<lambda>k. True))"
        Inr "''c''" 540]
  by (simp add: binding_defs)

subsection \<open>Hydration\<close>

text \<open>
  C8. For every document identifier \<open>d\<close> that the store accepts and that no earlier
  \<^verbatim>\<open>put\<close> has named, \<^verbatim>\<open>get(d)\<close> returns the empty sentinel, and a component
  activated for \<open>d\<close> hydrates with the default content \<^verbatim>\<open>{}\<close> and renders the
  editor with it.
\<close>

theorem hydrate_default_when_absent:
  assumes "d \<notin> fst ` set ps" and "ok d" and "file_id f = d"
  shows "getCanvas (put_all ps (fresh_store ok)) d = Inr None
       \<and> dataSource (mount f (put_all ps (fresh_store ok))) = Some ''{}''
       \<and> render (mount f (put_all ps (fresh_store ok))) =
           Some \<lparr>editor_dataSource = ''{}'', editor_canvasName = file_name f,
                 modal_open = False\<rparr>"
proof -
  have "getCanvas (put_all ps (fresh_store ok)) d = Inr None"
    using assms(1,2)
    by (simp add: getCanvas_def put_all_keeps put_all_other fresh_store_def)
  then show ?thesis
    using assms(3)
    by (simp add: mount_def getDataSource_def render_def DEFAULT_DATA_SOURCE_def)
qed

text \<open>C8 after one \<^verbatim>\<open>put\<close> for another document.\<close>

theorem hydrate_default_when_absent_witness:
  "''d1'' \<notin> fst ` set [(''d2'', ''{\"a\":1}'')]
   \<and> getCanvas (put_all [(''d2'', ''{\"a\":1}'')] (fresh_store (\<lambda>k. True))) ''d1'' = Inr None
   \<and> getCanvas (put_all [(''d2'', ''{\"a\":1}'')] (fresh_store (\<lambda>k. True))) ''d2'' =
       Inr (Some ''{\"a\":1}'')
   \<and> dataSource (mount \<lparr>file_id = ''d1'', file_name = ''one''\<rparr>
        (put_all [(''d2'', ''{\"a\":1}'')] (fresh_store (\<lambda>k. True)))) = Some ''{}''
   \<and> render (mount \<lparr>file_id = ''d1'', file_name = ''one''\<rparr>
        (put_all [(''d2'', ''{\"a\":1}'')] (fresh_store (\<lambda>k. True)))) =
       Some \<lparr>editor_dataSource = ''{}'', editor_canvasName = ''one'', modal_open = False\<rparr>"
  using hydrate_default_when_absent
    [of "''d1''" "[(''d2'', ''{\"a\":1}'')]" "\<lambda>k. True"
        "\<lparr>file_id = ''d1'', file_name = ''one''\<rparr>"]
  by (simp add: binding_defs)

text \<open>
  C9. When the store returns the empty string for a document, or nothing, hydration
  sets the default content \<^verbatim>\<open>{}\<close> and the editor is rendered with it: the empty
  string is never rendered as it is.
\<close>

theorem hydrate_default_when_falsy:
  assumes "getCanvas (db w) i = Inr data" and "data = None \<or> data = Some []"
  shows "dataSource (getDataSource i w) = Some ''{}''
       \<and> render (getDataSource i w) =
           Some \<lparr>editor_dataSource = ''{}'', editor_canvasName = file_name (props_file w),
                 modal_open = isModalOpen w\<rparr>"
  using assms by (auto simp: getDataSource_def render_def DEFAULT_DATA_SOURCE_def)

text \<open>C9 on a store that holds the empty string for \<^verbatim>\<open>d1\<close>.\<close>

theorem hydrate_default_when_falsy_witness:
  "getCanvas \<lparr>available = True, valid_key = (\<lambda>k. True), records = [''d1'' \<mapsto> []]\<rparr> ''d1'' =
     Inr (Some [])
   \<and> dataSource (mount \<lparr>file_id = ''d1'', file_name = ''one''\<rparr>
        \<lparr>available = True, valid_key = (\<lambda>k. True), records = [''d1'' \<mapsto> []]\<rparr>) = Some ''{}''
   \<and> render (mount \<lparr>file_id = ''d1'', file_name = ''one''\<rparr>
        \<lparr>available = True, valid_key = (\<lambda>k. True), records = [''d1'' \<mapsto> []]\<rparr>) =
       Some \<lparr>editor_dataSource = ''{}'', editor_canvasName = ''one'', modal_open = False\<rparr>"
  using hydrate_default_when_falsy
    [of "\<lparr>props_file = \<lparr>file_id = ''d1'', file_name = ''one''\<rparr>, dataSource = None,
          isModalOpen = False, bound_file = \<lparr>file_id = ''d1'', file_name = ''one''\<rparr>,
          timer = None,
          db = \<lparr>available = True, valid_key = (\<lambda>k. True), records = [''d1'' \<mapsto> []]\<rparr>,
          console = [], writes = [], rejected = []\<rparr>"
        "''d1''" "Some []"]
  by (simp add: binding_defs)

subsection \<open>Failures of the store\<close>

text \<open>
  C6, amended. A storage failure during hydration or write is not caught at the
  binding and the binding logs nothing about it: the promise of the call is rejected
  and nobody handles it. A failed read leaves the component as it was, so there is no
  fallback to the default content: a component mounted on a failing store stays
  unloaded and renders nothing. A failed write is lost; all it leaves is the line
  that \<^verbatim>\<open>onChangeFn\<close> logs before every write.
\<close>

theorem storage_failures_unhandled:
  "(getCanvas (db w) i = Inl e \<longrightarrow>
      getDataSource i w = w\<lparr>rejected := rejected w @ [e]\<rparr>)
   \<and> (getCanvas st (file_id f) = Inl e \<longrightarrow>
        dataSource (mount f st :: 'd handraw) = None
      \<and> render (mount f st :: 'd handraw) = None
      \<and> console (mount f st :: 'd handraw) = []
      \<and> rejected (mount f st :: 'd handraw) = [e])
   \<and> (stringify data = Inr s
        \<and> addOrUpdateCanvas (db w) (file_id (bound_file w)) s = Inl e' \<longrightarrow>
      onChangeFn stringify data w =
        w\<lparr>console := console w @ [OnChangeLog data],
          writes := writes w @ [(file_id (bound_file w), s)],
          rejected := rejected w @ [e']\<rparr>)"
  by (simp add: getDataSource_def mount_def render_def onChangeFn_def Let_def)

text \<open>The amended C6 on a store that is unavailable, for a read and for a write.\<close>

theorem storage_failures_unhandled_witness:
  "getCanvas \<lparr>available = False, valid_key = (\<lambda>k. True), records = Map.empty\<rparr> ''d1'' =
     Inl StorageUnavailable
   \<and> addOrUpdateCanvas \<lparr>available = False, valid_key = (\<lambda>k. True), records = Map.empty\<rparr>
       ''d1'' ''x'' = Inl StorageUnavailable
   \<and> rejected (getDataSource ''d1''
        (\<lparr>props_file = \<lparr>file_id = ''d1'', file_name = ''one''\<rparr>, dataSource = Some ''{\"a\":1}'',
          isModalOpen = False, bound_file = \<lparr>file_id = ''d1'', file_name = ''one''\<rparr>,
          timer = None,
          db = \<lparr>available = False, valid_key = (\<lambda>k. True), records = Map.empty\<rparr>,
          console = [], writes = [], rejected = []\<rparr> :: string handraw)) =
       [StorageUnavailable]
   \<and> dataSource (getDataSource ''d1''
        (\<lparr>props_file = \<lparr>file_id = ''d1'', file_name = ''one''\<rparr>, dataSource = Some ''{\"a\":1}'',
          isModalOpen = False, bound_file = \<lparr>file_id = ''d1'', file_name = ''one''\<rparr>,
          timer = None,
          db = \<lparr>available = False, valid_key = (\<lambda>k. True), records = Map.empty\<rparr>,
          console = [], writes = [], rejected = []\<rparr> :: string handraw)) =
       Some ''{\"a\":1}''
   \<and> rejected (onChangeFn Inr ''x''
        \<lparr>props_file = \<lparr>file_id = ''d1'', file_name = ''one''\<rparr>, dataSource = Some ''{\"a\":1}'',
          isModalOpen = False, bound_file = \<lparr>file_id = ''d1'', file_name = ''one''\<rparr>,
          timer = None,
          db = \<lparr>available = False, valid_key = (\<lambda>k. True), records = Map.empty\<rparr>,
          console = [], writes = [], rejected = []\<rparr>) =
       [StorageUnavailable]
   \<and> render (mount \<lparr>file_id = ''d1'', file_name = ''one''\<rparr>
        \<lparr>available = False, valid_key = (\<lambda>k. True), records = Map.empty\<rparr> :: string handraw) =
       None"
  using storage_failures_unhandled
    [of "\<lparr>props_file = \<lparr>file_id = ''d1'', file_name = ''one''\<rparr>, dataSource = Some ''{\"a\":1}'',
          isModalOpen = False, bound_file = \<lparr>file_id = ''d1'', file_name = ''one''\<rparr>,
          timer = None,
          db = \<lparr>available = False, valid_key = (\<lambda>k. True), records = Map.empty\<rparr>,
          console = [], writes = [], rejected = []\<rparr>"
        "''d1''" StorageUnavailable
        "\<lparr>available = False, valid_key = (\<lambda>k. True), records = Map.empty\<rparr>"
        "\<lparr>file_id = ''d1'', file_name = ''one''\<rparr>"
        Inr "''x''" "''x''" StorageUnavailable]
  by (simp add: binding_defs)

text \<open>
  C6 as first stated fails on a store that is unavailable: the component mounted on
  it does not fall back to the default content. \<^verbatim>\<open>dataSource\<close> stays undefined,
  nothing is rendered, nothing is logged, and the rejection is unhandled.
\<close>

theorem failed_read_no_fallback_counterexample:
  "dataSource (mount \<lparr>file_id = ''d1'', file_name = ''one''\<rparr>
      \<lparr>available = False, valid_key = (\<lambda>k. True), records = Map.empty\<rparr> :: string handraw) =
     None
   \<and> dataSource (mount \<lparr>file_id = ''d1'', file_name = ''one''\<rparr>
      \<lparr>available = False, valid_key = (\<lambda>k. True), records = Map.empty\<rparr> :: string handraw) \<noteq>
     Some DEFAULT_DATA_SOURCE
   \<and> render (mount \<lparr>file_id = ''d1'', file_name = ''one''\<rparr>
      \<lparr>available = False, valid_key = (\<lambda>k. True), records = Map.empty\<rparr> :: string handraw) =
     None
   \<and> console (mount \<lparr>file_id = ''d1'', file_name = ''one''\<rparr>
      \<lparr>available = False, valid_key = (\<lambda>k. True), records = Map.empty\<rparr> :: string handraw) =
     []
   \<and> rejected (mount \<lparr>file_id = ''d1'', file_name = ''one''\<rparr>
      \<lparr>available = False, valid_key = (\<lambda>k. True), records = Map.empty\<rparr> :: string handraw) =
     [StorageUnavailable]"
  by (simp add: binding_defs)

end
